theory Spec2Isabelle
  imports Complex_Main "HOL-Library.Sublist"
begin

section \<open>Python values\<close>

text \<open>
  A Python \<open>str\<close> is a sequence of Unicode code points and \<open>len\<close> counts code points,
  so a string is modelled as a list of code points (natural numbers). The function \<open>u\<close>
  turns an ASCII literal into such a list. Python floats are modelled as real numbers.
\<close>

type_synonym ustr = "nat list"

definition u :: "string \<Rightarrow> ustr" where
  "u s = map of_char s"

text \<open>\<open>x or default\<close> on an optional number: \<open>None\<close> and zero are falsy.\<close>

definition py_or :: "'a::zero option \<Rightarrow> 'a \<Rightarrow> 'a" where
  "py_or x d = (case x of None \<Rightarrow> d | Some v \<Rightarrow> if v = 0 then d else v)"

text \<open>\<open>xs[:k]\<close>: a negative bound counts from the end.\<close>

definition py_take :: "int \<Rightarrow> 'a list \<Rightarrow> 'a list" where
  "py_take k xs = (if 0 \<le> k then take (nat k) xs else take (nat (int (length xs) + k)) xs)"

text \<open>\<open>sep.join(parts)\<close>.\<close>

fun join :: "ustr \<Rightarrow> ustr list \<Rightarrow> ustr" where
  "join sep [] = []"
| "join sep [x] = x"
| "join sep (x # y # ys) = x @ sep @ join sep (y # ys)"

section \<open>Configuration (config.py)\<close>

definition CHUNK_SIZE_TOKENS :: int where "CHUNK_SIZE_TOKENS = 1000"
definition CHUNK_OVERLAP_PERCENT :: real where "CHUNK_OVERLAP_PERCENT = 0.125"
definition SIMILARITY_THRESHOLD :: real where "SIMILARITY_THRESHOLD = 0.35"
definition TOP_K_CHUNKS :: int where "TOP_K_CHUNKS = 5"
definition MAX_RETRIES :: nat where "MAX_RETRIES = 3"
definition MAX_CONTEXT_LENGTH :: int where "MAX_CONTEXT_LENGTH = 2000"

section \<open>Segment merging (utils/text.py, merge_short_segments)\<close>

text \<open>A transcript segment: the dictionary with keys \<open>text\<close>, \<open>start\<close>, \<open>duration\<close>.\<close>

record segment =
  seg_text :: ustr
  seg_start :: real
  seg_duration :: real

text \<open>
  The \<open>for next_segment in segments[1:]\<close> loop, with the loop variables
  \<open>current_segment\<close> and \<open>merged\<close> as arguments; after the loop the last
  \<open>current_segment\<close> is appended.
\<close>

fun merge_loop :: "real \<Rightarrow> segment \<Rightarrow> segment list \<Rightarrow> segment list \<Rightarrow> segment list" where
  "merge_loop min_duration current_segment merged [] = merged @ [current_segment]"
| "merge_loop min_duration current_segment merged (next_segment # rest) =
     (let current_duration = seg_duration current_segment in
      if current_duration < min_duration then
        (let new_text = seg_text current_segment @ u '' '' @ seg_text next_segment;
             next_end = seg_start next_segment + seg_duration next_segment;
             current_end = seg_start current_segment + seg_duration current_segment
         in merge_loop min_duration
              (current_segment\<lparr>seg_text := new_text,
                 seg_duration := max next_end current_end - seg_start current_segment\<rparr>)
              merged rest)
      else merge_loop min_duration next_segment (merged @ [current_segment]) rest)"

definition merge_short_segments :: "segment list \<Rightarrow> real \<Rightarrow> segment list" where
  "merge_short_segments segments min_duration =
     (case segments of
        [] \<Rightarrow> []
      | first # rest \<Rightarrow> merge_loop min_duration first [] rest)"

text \<open>The default of the parameter \<open>min_duration\<close>.\<close>

definition merge_min_duration_default :: real where
  "merge_min_duration_default = 2.0"

subsection \<open>The merge pass as the specification words it\<close>

text \<open>
  The specification describes the merge pass as a left-to-right fold over an accumulator:
  a short accumulator absorbs the next segment, a long one is flushed and the next segment
  becomes the accumulator; the final accumulator is always flushed. The state of the fold
  is the accumulator together with the lines flushed so far.
\<close>

definition absorb :: "segment \<Rightarrow> segment \<Rightarrow> segment" where
  "absorb acc nxt =
     acc\<lparr>seg_text := seg_text acc @ u '' '' @ seg_text nxt,
         seg_duration :=
           max (seg_start acc + seg_duration acc) (seg_start nxt + seg_duration nxt)
             - seg_start acc\<rparr>"

definition fold_step :: "real \<Rightarrow> segment \<times> segment list \<Rightarrow> segment \<Rightarrow> segment \<times> segment list" where
  "fold_step min_duration st nxt =
     (if seg_duration (fst st) < min_duration
      then (absorb (fst st) nxt, snd st)
      else (nxt, snd st @ [fst st]))"

definition merge_as_fold :: "segment list \<Rightarrow> real \<Rightarrow> segment list" where
  "merge_as_fold segments min_duration =
     (case segments of
        [] \<Rightarrow> []
      | first # rest \<Rightarrow>
          (let st = foldl (fold_step min_duration) (first, []) rest
           in snd st @ [fst st]))"

section \<open>Chunks and citations (utils/text.py, TranscriptChunk)\<close>

record TranscriptChunk =
  chunk_text :: ustr
  start_time :: real
  end_time :: real
  chunk_id :: nat

text \<open>Decimal digits of a natural number, and the format \<open>{n:02d}\<close> for \<open>n \<ge> 0\<close>.\<close>

function dec :: "nat \<Rightarrow> ustr" where
  "dec n = (if n < 10 then [48 + n] else dec (n div 10) @ [48 + n mod 10])"
  by pat_completeness auto
termination
  by (relation "measure id") auto

declare dec.simps [simp del]

definition fmt02 :: "nat \<Rightarrow> ustr" where
  "fmt02 n = (if n < 10 then 48 # dec n else dec n)"

text \<open>
  Python's \<open>x // y\<close> and \<open>x % y\<close> on floats (for a positive \<open>y\<close>), and \<open>int(x)\<close>,
  which truncates toward zero.
\<close>

definition py_floordiv :: "real \<Rightarrow> real \<Rightarrow> real" where
  "py_floordiv x y = of_int \<lfloor>x / y\<rfloor>"

definition py_mod :: "real \<Rightarrow> real \<Rightarrow> real" where
  "py_mod x y = x - y * of_int \<lfloor>x / y\<rfloor>"

definition py_int :: "real \<Rightarrow> int" where
  "py_int x = (if 0 \<le> x then \<lfloor>x\<rfloor> else \<lceil>x\<rceil>)"

definition format_timestamp :: "real \<Rightarrow> ustr" where
  "format_timestamp seconds =
     (let hours = py_int (py_floordiv seconds 3600);
          minutes = py_int (py_floordiv (py_mod seconds 3600) 60);
          secs = py_int (py_mod seconds 60)
      in if hours > 0
         then fmt02 (nat hours) @ u '':'' @ fmt02 (nat minutes) @ u '':'' @ fmt02 (nat secs)
         else fmt02 (nat minutes) @ u '':'' @ fmt02 (nat secs))"

text \<open>The citation \<open>[start\<endash>end]\<close>; 8211 is the code point of the en dash.\<close>

definition get_citation :: "TranscriptChunk \<Rightarrow> ustr" where
  "get_citation c =
     u ''['' @ format_timestamp (start_time c) @ [8211] @ format_timestamp (end_time c) @ u '']''"

section \<open>Chunking (utils/text.py, chunk_transcript)\<close>

text \<open>
  Whitespace as \<open>str.strip\<close> and \<open>str.isspace\<close> see it, by code point.
\<close>

definition is_space :: "nat \<Rightarrow> bool" where
  "is_space c \<longleftrightarrow>
     (9 \<le> c \<and> c \<le> 13) \<or> (28 \<le> c \<and> c \<le> 32) \<or> c = 133 \<or> c = 160 \<or> c = 5760 \<or>
     (8192 \<le> c \<and> c \<le> 8202) \<or> c = 8232 \<or> c = 8233 \<or> c = 8239 \<or> c = 8287 \<or> c = 12288"

definition lstrip :: "ustr \<Rightarrow> ustr" where
  "lstrip s = dropWhile is_space s"

definition strip :: "ustr \<Rightarrow> ustr" where
  "strip s = rev (lstrip (rev (lstrip s)))"

definition estimate_tokens :: "ustr \<Rightarrow> int" where
  "estimate_tokens t = int (length t) div 4"

text \<open>
  A parsed transcript line: the dictionary with keys \<open>text\<close>, \<open>start_time\<close> and \<open>line\<close>
  that the parsing loop of \<open>chunk_transcript\<close> appends to \<open>segments\<close>.
\<close>

record parsed_line =
  line_text :: ustr
  line_start_time :: real
  line_raw :: ustr

text \<open>
  The inner \<open>while j < len(segments) and current_tokens < chunk_size\<close> loop. Its variables
  \<open>j\<close>, \<open>chunk_text_parts\<close>, \<open>chunk_end_time\<close> and \<open>current_tokens\<close> are the arguments and
  the result; \<open>break\<close> returns them as they are.
\<close>

function accumulate ::
  "parsed_line list \<Rightarrow> int \<Rightarrow> nat \<Rightarrow> ustr list \<Rightarrow> real \<Rightarrow> int \<Rightarrow> nat \<times> ustr list \<times> real \<times> int" where
  "accumulate segments chunk_size j chunk_text_parts chunk_end_time current_tokens =
     (if j < length segments \<and> current_tokens < chunk_size then
        (let seg = segments ! j;
             segment_text = line_text seg;
             segment_tokens = estimate_tokens segment_text
         in if current_tokens + segment_tokens \<le> chunk_size \<or> length chunk_text_parts = 0
            then accumulate segments chunk_size (j + 1) (chunk_text_parts @ [segment_text])
                   (line_start_time seg) (current_tokens + segment_tokens)
            else (j, chunk_text_parts, chunk_end_time, current_tokens))
      else (j, chunk_text_parts, chunk_end_time, current_tokens))"
  by pat_completeness auto
termination
  by (relation "measure (\<lambda>(segments, chunk_size, j, rest). length segments - j)") auto

declare accumulate.simps [simp del]

text \<open>
  One iteration of the outer \<open>while i < len(segments)\<close> loop, for the loop variables \<open>i\<close>
  and \<open>chunk_id\<close>. The record keeps what the iteration computed: the window \<open>[i, j)\<close> of
  lines it consumed, the chunk it appended to \<open>chunks\<close> (none when the joined text is
  blank), and the next value of \<open>i\<close>.
\<close>

record iteration =
  it_start :: nat
  it_stop :: nat
  it_chunk :: "TranscriptChunk option"
  it_next :: nat

definition chunk_iteration ::
  "parsed_line list \<Rightarrow> int \<Rightarrow> real \<Rightarrow> nat \<Rightarrow> nat \<Rightarrow> iteration" where
  "chunk_iteration segments chunk_size overlap_percent i cid =
     (let chunk_start_time = line_start_time (segments ! i);
          r = accumulate segments chunk_size i [] chunk_start_time 0;
          j = fst r;
          chunk_text_parts = fst (snd r);
          chunk_end_time = fst (snd (snd r));
          text = join (u '' '') chunk_text_parts;
          emitted =
            (if strip text \<noteq> []
             then Some \<lparr>chunk_text = text, start_time = chunk_start_time,
                        end_time = chunk_end_time, chunk_id = cid\<rparr>
             else None);
          overlap_segments = max 1 (py_int (real (length chunk_text_parts) * overlap_percent));
          i' = max (int i + 1) (int j - overlap_segments)
      in \<lparr>it_start = i, it_stop = j, it_chunk = emitted, it_next = nat i'\<rparr>)"

lemma chunk_iteration_advances: "i < it_next (chunk_iteration segments chunk_size overlap_percent i cid)"
  by (simp add: chunk_iteration_def Let_def)

text \<open>
  The outer loop: the list of its iterations, in order. \<open>chunk_id\<close> is incremented when a
  chunk was appended.
\<close>

function chunk_loop ::
  "parsed_line list \<Rightarrow> int \<Rightarrow> real \<Rightarrow> nat \<Rightarrow> nat \<Rightarrow> iteration list" where
  "chunk_loop segments chunk_size overlap_percent i cid =
     (if i < length segments then
        (let it = chunk_iteration segments chunk_size overlap_percent i cid
         in it # chunk_loop segments chunk_size overlap_percent (it_next it)
                   (case it_chunk it of None \<Rightarrow> cid | Some c \<Rightarrow> cid + 1))
      else [])"
  by pat_completeness auto
termination
proof (relation "measure (\<lambda>(segments, chunk_size, overlap_percent, i, cid). length segments - i)")
  show "wf (measure (\<lambda>(segments, chunk_size, overlap_percent, i, cid). length segments - i))"
    by simp
next
  fix segments :: "parsed_line list" and chunk_size :: int and overlap_percent :: real
    and i cid :: nat and x :: iteration
  assume "i < length segments"
    and "x = chunk_iteration segments chunk_size overlap_percent i cid"
  then show "((segments, chunk_size, overlap_percent, it_next x,
                case it_chunk x of None \<Rightarrow> cid | Some c \<Rightarrow> cid + 1),
              segments, chunk_size, overlap_percent, i, cid)
             \<in> measure (\<lambda>(segments, chunk_size, overlap_percent, i, cid). length segments - i)"
    using chunk_iteration_advances [of i segments chunk_size overlap_percent cid] by simp
qed

declare chunk_loop.simps [simp del]

text \<open>
  \<open>chunk_transcript\<close>. The parsing of the transcript text into \<open>segments\<close> (the regular
  expression for \<open>[timestamp] text\<close> lines and \<open>parse_timestamp\<close>) is the parameter
  \<open>parse_lines\<close>; the defaults, the empty case and the chunking loop are as in the source.
  The chunks are the ones the iterations appended, in order.
\<close>

definition chunk_transcript ::
  "(ustr \<Rightarrow> parsed_line list) \<Rightarrow> ustr \<Rightarrow> int option \<Rightarrow> real option \<Rightarrow> TranscriptChunk list" where
  "chunk_transcript parse_lines transcript_text chunk_size overlap_percent =
     (let chunk_size = py_or chunk_size CHUNK_SIZE_TOKENS;
          overlap_percent = py_or overlap_percent CHUNK_OVERLAP_PERCENT;
          segments = parse_lines transcript_text
      in if segments = [] then []
         else List.map_filter it_chunk (chunk_loop segments chunk_size overlap_percent 0 0))"





section \<open>Retrieval (utils/retrieval.py, EmbeddingRetriever)\<close>

text \<open>
  Exceptions are values: \<open>ValueError\<close> is what the code itself (and numpy, on vectors of
  different lengths) raises, \<open>TypeError\<close> what \<open>raise None\<close> gives, \<open>ServiceError\<close> stands for
  any exception of a call to an external service. An embedding is a one-dimensional array
  of doubles.
\<close>

datatype error = ValueError | TypeError | ServiceError

type_synonym vec = "real list"

text \<open>
  numpy and the arithmetic of doubles are not part of the repository: \<open>np.linalg.norm\<close>,
  \<open>np.dot\<close> and the operators \<open>*\<close> and \<open>/\<close> on doubles are parameters, so nothing is assumed
  about their rounding, underflow or overflow. A double is represented by the real number
  it denotes; comparisons of doubles (\<open>==\<close>, \<open><\<close>, \<open>>=\<close>) are then the comparisons of these
  numbers. The values \<open>inf\<close> and \<open>nan\<close> have no representation here.
\<close>

record numpy =
  linalg_norm :: "vec \<Rightarrow> real"
  dot :: "vec \<Rightarrow> vec \<Rightarrow> error + real"
  float_mul :: "real \<Rightarrow> real \<Rightarrow> real"
  float_div :: "real \<Rightarrow> real \<Rightarrow> real"

definition cosine_similarity :: "numpy \<Rightarrow> vec \<Rightarrow> vec \<Rightarrow> error + real" where
  "cosine_similarity np vec1 vec2 =
     (let norm1 = linalg_norm np vec1;
          norm2 = linalg_norm np vec2
      in if norm1 = 0 \<or> norm2 = 0 then Inr 0
         else (case dot np vec1 vec2 of
                 Inl e \<Rightarrow> Inl e
               | Inr d \<Rightarrow> Inr (float_div np d (float_mul np norm1 norm2))))"

text \<open>
  The arithmetic without rounding, on vectors of any length: the norm is the square root
  of the sum of squares, \<open>np.dot\<close> raises \<open>ValueError\<close> on vectors of different lengths.
\<close>

definition exact_numpy :: numpy where
  "exact_numpy =
     \<lparr>linalg_norm = (\<lambda>v. sqrt (sum_list (map (\<lambda>x. x * x) v))),
      dot = (\<lambda>a b. if length a \<noteq> length b then Inl ValueError
                    else Inr (sum_list (map (\<lambda>p. fst p * snd p) (zip a b)))),
      float_mul = (\<lambda>x y. x * y),
      float_div = (\<lambda>x y. x / y)\<rparr>"

text \<open>
  The loop \<open>for i, chunk_embedding in enumerate(chunk_embeddings)\<close> that builds
  \<open>similarities\<close>; it runs after the check that both lists have the same length, so
  \<open>chunks[i]\<close> exists. An exception of \<open>cosine_similarity\<close> leaves the loop.
\<close>

fun score_chunks ::
  "numpy \<Rightarrow> vec \<Rightarrow> TranscriptChunk list \<Rightarrow> vec list \<Rightarrow> error + (TranscriptChunk \<times> real) list" where
  "score_chunks np query_embedding (chunk # chunks) (chunk_embedding # chunk_embeddings) =
     (case cosine_similarity np query_embedding chunk_embedding of
        Inl e \<Rightarrow> Inl e
      | Inr similarity \<Rightarrow>
          (case score_chunks np query_embedding chunks chunk_embeddings of
             Inl e \<Rightarrow> Inl e
           | Inr similarities \<Rightarrow> Inr ((chunk, similarity) # similarities)))"
| "score_chunks np query_embedding chunks chunk_embeddings = Inr []"

text \<open>
  \<open>similarities.sort(key=lambda x: x[1], reverse=True)\<close>: Python's sort is stable, also
  with \<open>reverse=True\<close>, and the stably sorted list is unique, so an insertion sort that
  puts an element before the first one whose score is not larger computes it.
\<close>

fun insert_desc :: "'a \<times> real \<Rightarrow> ('a \<times> real) list \<Rightarrow> ('a \<times> real) list" where
  "insert_desc x [] = [x]"
| "insert_desc x (y # ys) = (if snd x < snd y then y # insert_desc x ys else x # y # ys)"

fun sort_desc :: "('a \<times> real) list \<Rightarrow> ('a \<times> real) list" where
  "sort_desc [] = []"
| "sort_desc (x # xs) = insert_desc x (sort_desc xs)"

text \<open>
  \<open>find_similar_chunks\<close>. The method \<open>get_embedding\<close> is a parameter: it takes the query
  and the state of the retriever and the services, and returns the vector and the new
  state (it never raises: see \<open>get_embedding\<close> below).
\<close>

definition find_similar_chunks ::
  "numpy \<Rightarrow> (ustr \<Rightarrow> 's \<Rightarrow> vec \<times> 's) \<Rightarrow> ustr \<Rightarrow> TranscriptChunk list \<Rightarrow> vec list \<Rightarrow>
   int option \<Rightarrow> real option \<Rightarrow> 's \<Rightarrow> (error + (TranscriptChunk \<times> real) list) \<times> 's" where
  "find_similar_chunks np get_emb query chunks chunk_embeddings top_k threshold s =
     (let top_k = py_or top_k TOP_K_CHUNKS;
          threshold = py_or threshold SIMILARITY_THRESHOLD
      in if length chunks \<noteq> length chunk_embeddings then (Inl ValueError, s)
         else
           (let r = get_emb query s;
                query_embedding = fst r
            in case score_chunks np query_embedding chunks chunk_embeddings of
                 Inl e \<Rightarrow> (Inl e, snd r)
               | Inr similarities \<Rightarrow>
                   (Inr (py_take top_k
                           (filter (\<lambda>p. snd p \<ge> threshold) (sort_desc similarities))),
                    snd r)))"

text \<open>
  \<open>prepare_context\<close>: the loop over \<open>similar_chunks\<close> with its variables \<open>context_parts\<close>
  and \<open>current_length\<close>; \<open>break\<close> returns the parts collected so far.
\<close>

fun context_loop :: "int \<Rightarrow> ustr list \<Rightarrow> int \<Rightarrow> (TranscriptChunk \<times> real) list \<Rightarrow> ustr list" where
  "context_loop max_length context_parts current_length [] = context_parts"
| "context_loop max_length context_parts current_length (cs # rest) =
     (let chunk = fst cs;
          citation = get_citation chunk;
          block = chunk_text chunk @ u '' '' @ citation
      in if current_length + int (length block) + 2 > max_length \<and> context_parts \<noteq> []
         then context_parts
         else
           (let block =
                  (if context_parts = [] \<and> int (length block) > max_length
                   then (let available_length = max_length - int (length citation) - 1;
                             truncated_text = py_take available_length (chunk_text chunk)
                         in truncated_text @ u '' '' @ citation)
                   else block)
            in context_loop max_length (context_parts @ [block])
                 (current_length + int (length block) + 2) rest))"

definition prepare_context :: "(TranscriptChunk \<times> real) list \<Rightarrow> int option \<Rightarrow> ustr" where
  "prepare_context similar_chunks max_length =
     (let max_length = py_or max_length MAX_CONTEXT_LENGTH
      in if similar_chunks = [] then []
         else join [10, 10] (context_loop max_length [] 0 similar_chunks))"

text \<open>
  Vocabulary for the properties of \<open>prepare_context\<close>: the block of a ranked chunk, and
  the first block for a budget.
\<close>

definition block_of :: "TranscriptChunk \<times> real \<Rightarrow> ustr" where
  "block_of cs = chunk_text (fst cs) @ u '' '' @ get_citation (fst cs)"

definition first_block :: "int \<Rightarrow> TranscriptChunk \<times> real \<Rightarrow> ustr" where
  "first_block max_chars cs =
     (if int (length (block_of cs)) > max_chars
      then py_take (max_chars - int (length (get_citation (fst cs))) - 1) (chunk_text (fst cs))
             @ u '' '' @ get_citation (fst cs)
      else block_of cs)"

section \<open>Services and state (utils/retrieval.py, agents/qa.py)\<close>

text \<open>
  What the text-generation service returns: a string, a dictionary with string keys,
  a list, or a value of another type.
\<close>

datatype response = RStr ustr | RDict "(ustr \<times> response) list" | RList "response list" | ROther

text \<open>
  The collaborators and everything else that is not code of the repository. The two calls
  of the inference client may raise or return; their outcome may differ from call to
  call, so it depends on the number of calls made before. For \<open>feature_extraction\<close> the
  outcome is that of the call and of the conversion of the response to a one-dimensional
  array. \<open>generate_mock_embedding\<close> depends on the MD5 hash of the text. \<open>str_lower\<close>,
  \<open>str_upper\<close> and \<open>str_islower\<close> are the Unicode case functions of \<open>str\<close>, and \<open>py_repr\<close> is
  \<open>str(x)\<close> on a value that is not a string. \<open>OFFLINE_MODE\<close> is the flag of \<open>Config\<close> read
  from the environment.
\<close>

record services =
  OFFLINE_MODE :: bool
  feature_extraction :: "nat \<Rightarrow> ustr \<Rightarrow> error + vec"
  text_generation :: "nat \<Rightarrow> ustr \<Rightarrow> error + response"
  generate_mock_embedding :: "ustr \<Rightarrow> vec"
  str_lower :: "ustr \<Rightarrow> ustr"
  str_upper :: "ustr \<Rightarrow> ustr"
  str_islower :: "ustr \<Rightarrow> bool"
  py_repr :: "response \<Rightarrow> ustr"

text \<open>
  The state: the cache of the retriever, and the numbers of calls made so far to the two
  services.
\<close>

record world =
  embeddings_cache :: "ustr \<Rightarrow> vec option"
  embedding_calls :: nat
  generation_calls :: nat

text \<open>
  \<open>rate_limit_retry\<close>: the loop \<open>for attempt in range(Config.MAX_RETRIES)\<close> with its
  variable \<open>last_exception\<close>; \<open>n\<close> counts the calls of the service. After the loop
  \<open>raise last_exception\<close> raises the last exception, or \<open>TypeError\<close> when there was none.
  The waiting between attempts changes no value.
\<close>

fun retry_loop :: "(nat \<Rightarrow> error + 'a) \<Rightarrow> nat \<Rightarrow> nat \<Rightarrow> error option \<Rightarrow> (error + 'a) \<times> nat" where
  "retry_loop func 0 n last_exception =
     (case last_exception of None \<Rightarrow> (Inl TypeError, n) | Some e \<Rightarrow> (Inl e, n))"
| "retry_loop func (Suc attempts) n last_exception =
     (case func n of
        Inr v \<Rightarrow> (Inr v, Suc n)
      | Inl e \<Rightarrow> retry_loop func attempts (Suc n) (Some e))"

definition rate_limit_retry :: "(nat \<Rightarrow> error + 'a) \<Rightarrow> nat \<Rightarrow> (error + 'a) \<times> nat" where
  "rate_limit_retry func n = retry_loop func MAX_RETRIES n None"

text \<open>\<open>EmbeddingRetriever.get_embedding\<close>.\<close>

definition get_embedding :: "services \<Rightarrow> ustr \<Rightarrow> world \<Rightarrow> vec \<times> world" where
  "get_embedding sv text w =
     (case embeddings_cache w text of
        Some embedding \<Rightarrow> (embedding, w)
      | None \<Rightarrow>
          if OFFLINE_MODE sv then
            (let embedding = generate_mock_embedding sv text
             in (embedding, w\<lparr>embeddings_cache := (embeddings_cache w)(text \<mapsto> embedding)\<rparr>))
          else
            (let r = rate_limit_retry (\<lambda>n. feature_extraction sv n text) (embedding_calls w);
                 w' = w\<lparr>embedding_calls := snd r\<rparr>
             in case fst r of
                  Inr embedding \<Rightarrow>
                    (embedding, w'\<lparr>embeddings_cache := (embeddings_cache w')(text \<mapsto> embedding)\<rparr>)
                | Inl e \<Rightarrow>
                    (let embedding = generate_mock_embedding sv text
                     in (embedding,
                         w'\<lparr>embeddings_cache := (embeddings_cache w')(text \<mapsto> embedding)\<rparr>))))"

section \<open>Question answering (agents/qa.py, QAAgent)\<close>

text \<open>The fixed answers.\<close>

definition NO_CONTENT :: ustr where
  "NO_CONTENT = u ''No content has been indexed for Q&A.''"

definition NOT_FOUND :: ustr where
  "NOT_FOUND = u ''Not found in video.''"

definition GENERATION_ERROR :: ustr where
  "GENERATION_ERROR = u ''I encountered an error while generating the answer.''"

definition PROCESSING_ERROR :: ustr where
  "PROCESSING_ERROR = u ''I encountered an error while processing your question.''"

text \<open>\<open>Config.QA_PROMPT_TEMPLATE.format(context=context, question=question)\<close>; 39 is the apostrophe.\<close>

definition QA_PROMPT_TEMPLATE_format :: "ustr \<Rightarrow> ustr \<Rightarrow> ustr" where
  "QA_PROMPT_TEMPLATE_format context question =
     u ''Answer the following question using ONLY the provided context. '' @
     u ''If the context does not contain the answer, reply '' @ [39] @ u ''Not found in video.'' @ [39] @
     u '' Context: '' @ context @ u '' Question: '' @ question @ u '' Answer:''"

text \<open>\<open>sub in s\<close> on strings.\<close>

fun contains :: "ustr \<Rightarrow> ustr \<Rightarrow> bool" where
  "contains sub [] = (sub = [])"
| "contains sub (c # s) = (prefix sub (c # s) \<or> contains sub s)"

text \<open>\<open>QAAgent.clean_answer\<close>.\<close>

definition clean_answer :: "services \<Rightarrow> ustr \<Rightarrow> ustr" where
  "clean_answer sv answer =
     (if answer = [] then u ''I couldn'' @ [39] @ u ''t find an answer.''
      else
        (let answer = strip answer;
             answer = (if prefix (u ''answer:'') (str_lower sv answer)
                       then strip (drop 7 answer) else answer)
         in if str_lower sv answer \<in> set [[], u ''none'', u ''n/a'', u ''not applicable'']
            then NOT_FOUND
            else if answer \<noteq> [] \<and> str_islower sv [hd answer]
                 then str_upper sv [hd answer] @ tl answer
                 else answer))"

text \<open>
  The extraction of the answer from the response in \<open>generate_answer\<close>. \<open>.strip()\<close> on a
  value that is not a string raises \<open>AttributeError\<close>, which the inner \<open>try\<close> turns into
  a fixed text; so the result of a field access is optional here.
\<close>

definition strip_of :: "response \<Rightarrow> ustr option" where
  "strip_of v = (case v of RStr s \<Rightarrow> Some (strip s) | _ \<Rightarrow> None)"

definition py_str :: "services \<Rightarrow> response \<Rightarrow> ustr" where
  "py_str sv v = (case v of RStr s \<Rightarrow> s | _ \<Rightarrow> py_repr sv v)"

definition extract_dict :: "services \<Rightarrow> bool \<Rightarrow> (ustr \<times> response) list \<Rightarrow> ustr option" where
  "extract_dict sv top_level d =
     (case map_of d (u ''generated_text'') of
        Some v \<Rightarrow> strip_of v
      | None \<Rightarrow>
          (case map_of d (u ''text'') of
             Some v \<Rightarrow> strip_of v
           | None \<Rightarrow>
               if top_level \<and> length d = 1 then Some (strip (py_str sv (snd (hd d))))
               else Some (strip (py_str sv (RDict d)))))"

definition extract_answer :: "services \<Rightarrow> response \<Rightarrow> ustr" where
  "extract_answer sv result =
     (let parsed =
            (case result of
               RStr s \<Rightarrow> Some (strip s)
             | RDict d \<Rightarrow> extract_dict sv True d
             | RList (first_item # rest) \<Rightarrow>
                 (case first_item of
                    RDict fd \<Rightarrow> extract_dict sv False fd
                  | _ \<Rightarrow> Some (strip (py_str sv first_item)))
             | _ \<Rightarrow> Some (u ''Could not parse answer from API response.''))
      in case parsed of Some answer \<Rightarrow> answer | None \<Rightarrow> u ''Error parsing answer response.'')"

text \<open>\<open>QAAgent.generate_offline_answer\<close>.\<close>

definition generate_offline_answer :: "services \<Rightarrow> ustr \<Rightarrow> ustr \<Rightarrow> ustr" where
  "generate_offline_answer sv question context =
     (let question_lower = str_lower sv question
      in if list_ex (\<lambda>word. contains word question_lower) [u ''what'', u ''define'', u ''explain'']
         then
           (if contains (u ''machine learning'') question_lower
            then u ''Machine learning is a subset of artificial intelligence that enables computers to learn from data.''
            else if contains (u ''supervised'') question_lower
            then u ''Supervised learning uses labeled data to train models to make predictions.''
            else if contains (u ''neural network'') question_lower
            then u ''Neural networks are computing systems inspired by biological neural networks.''
            else u ''This concept is explained in the video content with relevant examples.'')
         else if list_ex (\<lambda>word. contains word question_lower) [u ''how'', u ''process'', u ''work'']
         then u ''The process involves multiple steps as described in the video, including data preparation and model training.''
         else if list_ex (\<lambda>word. contains word question_lower) [u ''why'', u ''reason'', u ''benefit'']
         then u ''This approach is beneficial because it provides accurate results and is widely applicable.''
         else if list_ex (\<lambda>word. contains word question_lower) [u ''when'', u ''time'', u ''use'']
         then u ''This technique is typically used when you have sufficient data and clear objectives.''
         else u ''Based on the video content, this topic is covered with practical examples and explanations.'')"

text \<open>
  \<open>QAAgent.generate_answer\<close>, in two parts: the prompt it builds before its \<open>try\<close>, and
  the rest. An exception inside its \<open>try\<close> (the retries of the generation are exhausted)
  gives the fixed text of its \<open>except\<close> clause.
\<close>

definition build_prompt :: "ustr \<Rightarrow> ustr \<Rightarrow> ustr" where
  "build_prompt question context =
     (let prompt = QA_PROMPT_TEMPLATE_format context question
      in if int (length prompt) > MAX_CONTEXT_LENGTH
         then (let available_length = MAX_CONTEXT_LENGTH - int (length question) - 200;
                   truncated_context = py_take available_length context
               in QA_PROMPT_TEMPLATE_format truncated_context question)
         else prompt)"

definition generate_answer :: "services \<Rightarrow> ustr \<Rightarrow> ustr \<Rightarrow> world \<Rightarrow> ustr \<times> world" where
  "generate_answer sv question context w =
     (let prompt = build_prompt question context
      in if OFFLINE_MODE sv
         then (clean_answer sv (extract_answer sv (RStr (generate_offline_answer sv question context))), w)
         else
           (let r = rate_limit_retry (\<lambda>n. text_generation sv n prompt) (generation_calls w);
                w' = w\<lparr>generation_calls := snd r\<rparr>
            in case fst r of
                 Inr result \<Rightarrow> (clean_answer sv (extract_answer sv result), w')
               | Inl e \<Rightarrow> (GENERATION_ERROR, w')))"

text \<open>
  The body of the \<open>try\<close> of \<open>answer_question\<close>, for the attributes \<open>chunks\<close> and
  \<open>chunk_embeddings\<close> of the agent and the parameters after their defaults. The result is
  the pair returned by a \<open>return\<close>, or the exception that leaves the block.
\<close>

definition answer_body ::
  "numpy \<Rightarrow> services \<Rightarrow> TranscriptChunk list \<Rightarrow> vec list \<Rightarrow> ustr \<Rightarrow> real \<Rightarrow> int \<Rightarrow> world \<Rightarrow>
   (error + ustr \<times> ustr list) \<times> world" where
  "answer_body np sv chunks chunk_embeddings question similarity_threshold top_k w =
     (let r = find_similar_chunks np (get_embedding sv) question chunks chunk_embeddings
                (Some top_k) (Some similarity_threshold) w;
          w1 = snd r
      in case fst r of
           Inl e \<Rightarrow> (Inl e, w1)
         | Inr similar_chunks \<Rightarrow>
             if similar_chunks = [] then (Inr (NOT_FOUND, []), w1)
             else if snd (hd similar_chunks) < similarity_threshold then (Inr (NOT_FOUND, []), w1)
             else
               (let context = prepare_context similar_chunks None
                in if context = [] then (Inr (NOT_FOUND, []), w1)
                   else
                     (let g = generate_answer sv question context w1;
                          answer = fst g;
                          citations = map (\<lambda>p. get_citation (fst p)) similar_chunks;
                          answer =
                            (if answer \<noteq> [] \<and> answer \<noteq> NOT_FOUND \<and> citations \<noteq> []
                             then (if \<not> list_ex (\<lambda>citation. contains citation answer) citations
                                   then answer @ u '' '' @ join (u '' '') citations
                                   else answer)
                             else answer)
                      in (Inr (answer, citations), snd g))))"

text \<open>
  \<open>QAAgent.answer_question\<close>: the check of the index, the defaults, and the \<open>try\<close> with
  its \<open>except Exception\<close> clause. The result is what the caller gets: \<open>Inr\<close> a returned
  pair, \<open>Inl\<close> an exception that propagates.
\<close>

definition answer_question ::
  "numpy \<Rightarrow> services \<Rightarrow> TranscriptChunk list \<Rightarrow> vec list \<Rightarrow> ustr \<Rightarrow> real option \<Rightarrow> int option \<Rightarrow>
   world \<Rightarrow> (error + ustr \<times> ustr list) \<times> world" where
  "answer_question np sv chunks chunk_embeddings question similarity_threshold top_k w =
     (if chunks = [] \<or> chunk_embeddings = [] then (Inr (NO_CONTENT, []), w)
      else
        (let similarity_threshold = py_or similarity_threshold SIMILARITY_THRESHOLD;
             top_k = py_or top_k TOP_K_CHUNKS;
             r = answer_body np sv chunks chunk_embeddings question similarity_threshold top_k w
         in case fst r of
              Inr res \<Rightarrow> (Inr res, snd r)
            | Inl e \<Rightarrow> (Inr (PROCESSING_ERROR, []), snd r)))"

section \<open>Example inputs\<close>

text \<open>
  Concrete inputs for the examples below: services whose embedding call returns the
  vector \<open>[1]\<close>, whose generation call has a given outcome on every attempt and whose case
  functions leave a text as it is; a state with an empty cache and no call made; a chunk
  with text \<open>a\<close> from 00:00 to 00:00, and its citation.
\<close>

definition replying :: "(error + response) \<Rightarrow> services" where
  "replying outcome =
     \<lparr>OFFLINE_MODE = False,
      feature_extraction = (\<lambda>n text. Inr [1]),
      text_generation = (\<lambda>n prompt. outcome),
      generate_mock_embedding = (\<lambda>text. [1]),
      str_lower = (\<lambda>s. s),
      str_upper = (\<lambda>s. s),
      str_islower = (\<lambda>s. False),
      py_repr = (\<lambda>v. [])\<rparr>"

definition fresh_world :: world where
  "fresh_world = \<lparr>embeddings_cache = (\<lambda>text. None), embedding_calls = 0, generation_calls = 0\<rparr>"

definition chunk_a :: TranscriptChunk where
  "chunk_a = \<lparr>chunk_text = u ''a'', start_time = 0, end_time = 0, chunk_id = 0\<rparr>"

definition citation_a :: ustr where
  "citation_a = u ''[00:00'' @ [8211] @ u ''00:00]''"

section \<open>Properties of segment merging\<close>

lemma merge_loop_is_foldl:
  "merge_loop m cur merged rest =
     snd (foldl (fold_step m) (cur, merged) rest) @ [fst (foldl (fold_step m) (cur, merged) rest)]"
proof (induction rest arbitrary: cur merged)
  case Nil
  show ?case by simp
next
  case (Cons nxt rest)
  show ?case
  proof (cases "seg_duration cur < m")
    case True
    then show ?thesis
      using Cons.IH [of "absorb cur nxt" merged]
      by (simp add: fold_step_def absorb_def Let_def max.commute)
  next
    case False
    then show ?thesis
      using Cons.IH [of nxt "merged @ [cur]"]
      by (simp add: fold_step_def)
  qed
qed

lemma merge_loop_flushed_long:
  "list_all (\<lambda>s. m \<le> seg_duration s) merged \<Longrightarrow>
   list_all (\<lambda>s. m \<le> seg_duration s) (butlast (merge_loop m cur merged rest))"
proof (induction rest arbitrary: cur merged)
  case Nil
  then show ?case by simp
next
  case (Cons nxt rest)
  show ?case
  proof (cases "seg_duration cur < m")
    case True
    then show ?thesis using Cons.IH [OF Cons.prems] by (simp add: Let_def)
  next
    case False
    with Cons.prems have "list_all (\<lambda>s. m \<le> seg_duration s) (merged @ [cur])" by simp
    from Cons.IH [OF this] False show ?thesis by simp
  qed
qed

text \<open>
  C6. For every segment list and threshold, \<open>merge_short_segments\<close> is the left-to-right
  fold of the specification (a short accumulator absorbs the next segment's text,
  space-joined, and its duration becomes \<open>max(accumulator_end, next_end) - accumulator_start\<close>;
  otherwise the accumulator is flushed and the next segment starts a new one; the final
  accumulator is always flushed), and every emitted segment except possibly the last has a
  duration at or above the threshold.
\<close>

theorem merge_short_segments_fold_and_durations:
  "merge_short_segments segments min_duration = merge_as_fold segments min_duration \<and>
   list_all (\<lambda>s. min_duration \<le> seg_duration s)
     (butlast (merge_short_segments segments min_duration))"
proof (cases segments)
  case Nil
  then show ?thesis by (simp add: merge_short_segments_def merge_as_fold_def)
next
  case (Cons first rest)
  have "list_all (\<lambda>s. min_duration \<le> seg_duration s)
          (butlast (merge_loop min_duration first [] rest))"
    by (rule merge_loop_flushed_long) simp
  with Cons show ?thesis
    by (simp add: merge_short_segments_def merge_as_fold_def Let_def merge_loop_is_foldl)
qed


section \<open>Properties of the chunking loop\<close>











lemma length_u: "length (u s) = length s"
  by (simp add: u_def)


lemma accumulate_blank_example:
  "accumulate [\<lparr>line_text = [], line_start_time = 1, line_raw = u ''[00:01]''\<rparr>] 1000 0 [] 1 0
     = (1, [[]], 1, 0)"
  apply (subst accumulate.simps)
  apply (simp add: estimate_tokens_def)
  apply (subst accumulate.simps)
  apply simp
  done

lemma chunk_loop_blank_example:
  "chunk_loop [\<lparr>line_text = [], line_start_time = 1, line_raw = u ''[00:01]''\<rparr>] 1000 ov 0 0
     = [\<lparr>it_start = 0, it_stop = 1, it_chunk = None, it_next = 1\<rparr>]"
  apply (subst chunk_loop.simps)
  apply (simp add: chunk_iteration_def Let_def accumulate_blank_example strip_def lstrip_def
      max_def)
  apply (subst chunk_loop.simps)
  apply simp
  done















text \<open>
  C2 as stated fails: the transcript \<open>[00:01]\<close> parses to one line with empty text; the
  loop consumes it but emits no chunk, so no emitted chunk covers line 0.
\<close>

theorem chunk_transcript_blank_line_counterexample:
  "[\<lparr>line_text = [], line_start_time = 1, line_raw = u ''[00:01]''\<rparr>] \<noteq> [] \<and>
   chunk_transcript (\<lambda>t. [\<lparr>line_text = [], line_start_time = 1, line_raw = u ''[00:01]''\<rparr>])
     (u ''[00:01]'') (Some 1000) (Some 0.125) = []"
  by (simp add: chunk_transcript_def py_or_def chunk_loop_blank_example List.map_filter_simps)

section \<open>Properties of retrieval\<close>








lemma set_py_take: "set (py_take k xs) \<subseteq> set xs"
  by (auto simp: py_take_def dest: in_set_takeD)









lemma length_join_snoc:
  "parts \<noteq> [] \<Longrightarrow> length (join sep (parts @ [b])) = length (join sep parts) + length sep + length b"
  by (induction sep parts rule: join.induct) simp_all

lemma context_loop_spec:
  assumes "parts \<noteq> []" and "cur = int (length (join [10, 10] parts)) + 2"
  shows "\<exists>n\<le>length rest.
           context_loop m parts cur rest = parts @ map block_of (take n rest) \<and>
           (\<forall>j<n. int (length (join [10, 10] (parts @ map block_of (take (Suc j) rest)))) + 2 \<le> m) \<and>
           (n < length rest \<longrightarrow>
              m < int (length (join [10, 10] (parts @ map block_of (take (Suc n) rest)))) + 2)"
  using assms
proof (induction rest arbitrary: parts cur)
  case Nil
  then show ?case by simp
next
  case (Cons cs rest)
  let ?b = "block_of cs"
  have lj: "int (length (join [10, 10] (parts @ [?b]))) + 2 = cur + int (length ?b) + 2"
    using Cons.prems by (simp add: length_join_snoc)
  show ?case
  proof (cases "cur + int (length ?b) + 2 > m")
    case True
    then have "context_loop m parts cur (cs # rest) = parts"
      using Cons.prems(1) by (simp add: Let_def block_of_def)
    with True lj show ?thesis by (intro exI [of _ 0]) simp
  next
    case False
    then have step: "context_loop m parts cur (cs # rest) =
                     context_loop m (parts @ [?b]) (cur + int (length ?b) + 2) rest"
      using Cons.prems(1) by (simp add: Let_def block_of_def)
    have ne: "parts @ [?b] \<noteq> []" by simp
    from Cons.IH [OF ne lj [symmetric]] obtain n where n: "n \<le> length rest"
      and eq: "context_loop m (parts @ [?b]) (cur + int (length ?b) + 2) rest
                 = (parts @ [?b]) @ map block_of (take n rest)"
      and within: "\<forall>j<n. int (length (join [10, 10] ((parts @ [?b]) @ map block_of (take (Suc j) rest)))) + 2 \<le> m"
      and stop: "n < length rest \<longrightarrow>
              m < int (length (join [10, 10] ((parts @ [?b]) @ map block_of (take (Suc n) rest)))) + 2"
      by blast
    have w: "int (length (join [10, 10] (parts @ map block_of (take (Suc j) (cs # rest))))) + 2 \<le> m"
      if "j < Suc n" for j
    proof (cases j)
      case 0
      with False lj show ?thesis by simp
    next
      case (Suc j')
      with that within show ?thesis by simp
    qed
    show ?thesis
      using n eq stop w step by (intro exI [of _ "Suc n"]) simp
  qed
qed


lemma context_loop_first:
  "context_loop m [] 0 (c # rest) =
     context_loop m [first_block m c] (int (length (join [10, 10] [first_block m c])) + 2) rest"
  by (simp add: Let_def first_block_def block_of_def)

lemma length_first_block:
  assumes "int (length (get_citation (fst c))) + 1 \<le> m"
  shows "int (length (first_block m c)) \<le> m"
proof (cases "int (length (block_of c)) > m")
  case False
  then show ?thesis by (simp add: first_block_def)
next
  case True
  let ?k = "m - int (length (get_citation (fst c))) - 1"
  have "0 \<le> ?k" using assms by simp
  then have "int (length (py_take ?k (chunk_text (fst c)))) \<le> ?k"
    by (simp add: py_take_def)
  with True show ?thesis by (simp add: first_block_def length_u)
qed

text \<open>
  C5 (as amended). \<open>prepare_context\<close> returns the empty string for empty input. For a
  non-empty ranked list and the effective budget \<open>m\<close> (the given \<open>max_length\<close>, or 2000 when
  \<open>None\<close> or zero is given) it returns blocks \<open>{chunk.text} {citation}\<close> joined by blank
  lines in ranked order: the first block always, with its text cut to
  \<open>text[:m - len(citation) - 1]\<close> and its citation kept when the block alone is longer than
  \<open>m\<close>, then the following blocks as long as the joined result plus two characters stays
  within \<open>m\<close>; it stops at the first block with which that bound is exceeded. When the
  budget has room for the first citation and the space before it, the returned string is
  not longer than \<open>m\<close>.
\<close>

theorem prepare_context_blocks_and_budget:
  "prepare_context [] max_length = [] \<and>
   (let m = py_or max_length MAX_CONTEXT_LENGTH;
        result = prepare_context (c # rest) max_length
    in (\<exists>n\<le>length rest.
          result = join [10, 10] (first_block m c # map block_of (take n rest)) \<and>
          (\<forall>j<n. int (length (join [10, 10] (first_block m c # map block_of (take (Suc j) rest)))) + 2 \<le> m) \<and>
          (n < length rest \<longrightarrow>
             m < int (length (join [10, 10] (first_block m c # map block_of (take (Suc n) rest)))) + 2)) \<and>
       (int (length (get_citation (fst c))) + 1 \<le> m \<longrightarrow> int (length result) \<le> m))"
proof -
  define m where "m = py_or max_length MAX_CONTEXT_LENGTH"
  define result where "result = prepare_context (c # rest) max_length"
  let ?f = "first_block m c"
  have r: "result = join [10, 10] (context_loop m [?f] (int (length (join [10, 10] [?f])) + 2) rest)"
    by (simp add: result_def prepare_context_def m_def Let_def context_loop_first del: context_loop.simps)
  from context_loop_spec [of "[?f]" "int (length (join [10, 10] [?f])) + 2" rest m]
  obtain n where n: "n \<le> length rest"
    and eq: "context_loop m [?f] (int (length (join [10, 10] [?f])) + 2) rest
               = [?f] @ map block_of (take n rest)"
    and within: "\<forall>j<n. int (length (join [10, 10] ([?f] @ map block_of (take (Suc j) rest)))) + 2 \<le> m"
    and stop: "n < length rest \<longrightarrow>
              m < int (length (join [10, 10] ([?f] @ map block_of (take (Suc n) rest)))) + 2"
    by auto
  have req: "result = join [10, 10] (?f # map block_of (take n rest))"
    using r eq by simp
  have a: "\<exists>n\<le>length rest.
          result = join [10, 10] (?f # map block_of (take n rest)) \<and>
          (\<forall>j<n. int (length (join [10, 10] (?f # map block_of (take (Suc j) rest)))) + 2 \<le> m) \<and>
          (n < length rest \<longrightarrow>
             m < int (length (join [10, 10] (?f # map block_of (take (Suc n) rest)))) + 2)"
    using n req within stop by (intro exI [of _ n]) simp
  have b: "int (length result) \<le> m" if cit: "int (length (get_citation (fst c))) + 1 \<le> m"
  proof (cases n)
    case 0
    with req length_first_block [OF cit] show ?thesis by simp
  next
    case (Suc k)
    then have "k < n" by simp
    with within have "int (length (join [10, 10] ([?f] @ map block_of (take (Suc k) rest)))) + 2 \<le> m"
      by blast
    with req Suc show ?thesis by simp
  qed
  have e: "prepare_context [] max_length = []"
    by (simp add: prepare_context_def)
  show ?thesis
    unfolding Let_def using e a b unfolding m_def result_def by blast
qed


lemma format_timestamp_zero: "format_timestamp 0 = u ''00:00''"
  by (simp add: format_timestamp_def py_floordiv_def py_mod_def py_int_def fmt02_def dec.simps
      u_def Let_def)

lemma get_citation_zero:
  "get_citation \<lparr>chunk_text = t, start_time = 0, end_time = 0, chunk_id = n\<rparr> =
     u ''[00:00'' @ [8211] @ u ''00:00]''"
  by (simp add: get_citation_def format_timestamp_zero u_def)

theorem prepare_context_blocks_and_budget_witness:
  "int (length (get_citation (fst (\<lparr>chunk_text = u ''hello'', start_time = 0, end_time = 0, chunk_id = 0\<rparr>, 0.9::real)))) + 1
     \<le> py_or (Some 40) MAX_CONTEXT_LENGTH \<and>
   prepare_context
     [(\<lparr>chunk_text = u ''hello'', start_time = 0, end_time = 0, chunk_id = 0\<rparr>, 0.9),
      (\<lparr>chunk_text = u ''world'', start_time = 0, end_time = 0, chunk_id = 1\<rparr>, 0.8)] (Some 40)
     = u ''hello [00:00'' @ [8211] @ u ''00:00]'' \<and>
   int (length (prepare_context
     [(\<lparr>chunk_text = u ''hello'', start_time = 0, end_time = 0, chunk_id = 0\<rparr>, 0.9),
      (\<lparr>chunk_text = u ''world'', start_time = 0, end_time = 0, chunk_id = 1\<rparr>, 0.8)] (Some 40)))
     \<le> py_or (Some 40) MAX_CONTEXT_LENGTH"
  using prepare_context_blocks_and_budget [of "Some 40"
     "(\<lparr>chunk_text = u ''hello'', start_time = 0, end_time = 0, chunk_id = 0\<rparr>, 0.9)"
     "[(\<lparr>chunk_text = u ''world'', start_time = 0, end_time = 0, chunk_id = 1\<rparr>, 0.8)]"]
  by (simp add: prepare_context_def get_citation_zero py_or_def Let_def u_def)

text \<open>
  C5 as stated fails: with budget 10 and the single chunk \<open>hello\<close> with citation
  \<open>[00:00\<endash>00:00]\<close> (13 characters) the first block is kept with its citation, the text is
  cut to \<open>text[:-4]\<close>, and the result has 15 characters.
\<close>

theorem prepare_context_small_budget_counterexample:
  "prepare_context
     [(\<lparr>chunk_text = u ''hello'', start_time = 0, end_time = 0, chunk_id = 0\<rparr>, 0.9)] (Some 10)
     = u ''h [00:00'' @ [8211] @ u ''00:00]'' \<and>
   \<not> int (length (prepare_context
     [(\<lparr>chunk_text = u ''hello'', start_time = 0, end_time = 0, chunk_id = 0\<rparr>, 0.9)] (Some 10))) \<le> 10"
  by (simp add: prepare_context_def get_citation_zero py_or_def py_take_def Let_def u_def)

section \<open>Properties of question answering\<close>

lemma py_or_nonzero: "d \<noteq> 0 \<Longrightarrow> py_or x d \<noteq> 0"
  by (simp add: py_or_def split: option.splits)

lemma py_or_idem: "d \<noteq> 0 \<Longrightarrow> py_or (Some (py_or x d)) d = py_or x d"
  by (simp add: py_or_def split: option.splits)

lemma find_similar_chunks_above_threshold:
  assumes "fst (find_similar_chunks np g q chunks embs top_k threshold s) = Inr res"
  shows "list_all (\<lambda>p. py_or threshold SIMILARITY_THRESHOLD \<le> snd p) res"
proof -
  from assms obtain sims where
    "res = py_take (py_or top_k TOP_K_CHUNKS)
             (filter (\<lambda>p. py_or threshold SIMILARITY_THRESHOLD \<le> snd p) (sort_desc sims))"
    by (auto simp: find_similar_chunks_def Let_def split: if_splits sum.splits)
  then show ?thesis
    using set_py_take [of "py_or top_k TOP_K_CHUNKS"
        "filter (\<lambda>p. py_or threshold SIMILARITY_THRESHOLD \<le> snd p) (sort_desc sims)"]
    by (auto simp: list_all_iff)
qed

lemma get_citation_nonempty: "get_citation c \<noteq> []"
  by (simp add: get_citation_def u_def)

lemma join_nonempty: "x \<noteq> [] \<Longrightarrow> join sep (x # xs) \<noteq> []"
  by (cases xs) simp_all

lemma first_block_nonempty: "first_block m c \<noteq> []"
  by (simp add: first_block_def block_of_def get_citation_nonempty)

lemma prepare_context_nonempty:
  assumes "similar \<noteq> []"
  shows "prepare_context similar max_length \<noteq> []"
proof -
  from assms obtain c rest where sc: "similar = c # rest" by (cases similar) auto
  define m where "m = py_or max_length MAX_CONTEXT_LENGTH"
  let ?f = "first_block m c"
  from context_loop_spec [of "[?f]" "int (length (join [10, 10] [?f])) + 2" rest m]
  obtain n where "context_loop m [?f] (int (length (join [10, 10] [?f])) + 2) rest
               = [?f] @ map block_of (take n rest)"
    by auto
  then have "prepare_context similar max_length = join [10, 10] (?f # map block_of (take n rest))"
    by (simp add: sc prepare_context_def m_def Let_def context_loop_first del: context_loop.simps)
  then show ?thesis by (simp add: join_nonempty first_block_nonempty)
qed

lemma retry_loop_all_fail:
  "(\<And>i. i < k \<Longrightarrow> \<exists>e. func (n + i) = Inl e) \<Longrightarrow>
   \<exists>e. retry_loop func k n le = (Inl e, n + k)"
proof (induction k arbitrary: n le)
  case 0
  then show ?case by (simp split: option.splits)
next
  case (Suc k)
  from Suc.prems [of 0] obtain e where e: "func n = Inl e" by auto
  have "\<exists>e. func (Suc n + i) = Inl e" if "i < k" for i
    using Suc.prems [of "Suc i"] that by simp
  from Suc.IH [OF this, of "Some e"] e show ?case by simp
qed

lemma contains_set: "contains sub s \<Longrightarrow> set sub \<subseteq> set s"
proof (induction s)
  case Nil
  then show ?case by simp
next
  case (Cons c s)
  from Cons.prems have "prefix sub (c # s) \<or> contains sub s" by simp
  then show ?case
  proof
    assume "prefix sub (c # s)"
    then show ?thesis by (rule set_mono_prefix)
  next
    assume "contains sub s"
    with Cons.IH show ?thesis by auto
  qed
qed

lemma citation_not_in_error: "\<not> contains (get_citation c) GENERATION_ERROR"
proof
  assume "contains (get_citation c) GENERATION_ERROR"
  then have "set (get_citation c) \<subseteq> set GENERATION_ERROR" by (rule contains_set)
  moreover have "91 \<in> set (get_citation c)" by (simp add: get_citation_def u_def)
  ultimately have "91 \<in> set GENERATION_ERROR" by blast
  then show False by (simp add: GENERATION_ERROR_def u_def)
qed

lemma generate_answer_all_fail:
  assumes "\<not> OFFLINE_MODE sv"
    and "\<And>i. i < MAX_RETRIES \<Longrightarrow>
           \<exists>e. text_generation sv (generation_calls w + i) (build_prompt question context) = Inl e"
  shows "generate_answer sv question context w =
           (GENERATION_ERROR, w\<lparr>generation_calls := generation_calls w + MAX_RETRIES\<rparr>)"
proof -
  from retry_loop_all_fail [of MAX_RETRIES "\<lambda>n. text_generation sv n (build_prompt question context)"
      "generation_calls w" None] assms(2)
  obtain e where "rate_limit_retry (\<lambda>n. text_generation sv n (build_prompt question context))
                    (generation_calls w) = (Inl e, generation_calls w + MAX_RETRIES)"
    unfolding rate_limit_retry_def by blast
  with assms(1) show ?thesis by (simp add: generate_answer_def Let_def)
qed


lemma answer_question_cases:
  assumes "chunks \<noteq> []" and "embs \<noteq> []"
  shows "answer_question np sv chunks embs question thr top_k w =
     (let f = find_similar_chunks np (get_embedding sv) question chunks embs
                (Some (py_or top_k TOP_K_CHUNKS)) (Some (py_or thr SIMILARITY_THRESHOLD)) w
      in case fst f of
           Inl e \<Rightarrow> (Inr (PROCESSING_ERROR, []), snd f)
         | Inr similar \<Rightarrow>
             if similar = [] then (Inr (NOT_FOUND, []), snd f)
             else
               (let g = generate_answer sv question (prepare_context similar None) (snd f);
                    citations = map (\<lambda>p. get_citation (fst p)) similar
                in (Inr (if fst g \<noteq> [] \<and> fst g \<noteq> NOT_FOUND \<and>
                            \<not> list_ex (\<lambda>citation. contains citation (fst g)) citations
                         then fst g @ u '' '' @ join (u '' '') citations
                         else fst g,
                         citations),
                    snd g)))"
proof -
  define t where "t = py_or thr SIMILARITY_THRESHOLD"
  define k where "k = py_or top_k TOP_K_CHUNKS"
  define f where "f = find_similar_chunks np (get_embedding sv) question chunks embs (Some k) (Some t) w"
  have t0: "t \<noteq> 0" unfolding t_def by (rule py_or_nonzero) (simp add: SIMILARITY_THRESHOLD_def)
  have tt: "py_or (Some t) SIMILARITY_THRESHOLD = t" using t0 by (simp add: py_or_def)
  have aq: "answer_question np sv chunks embs question thr top_k w =
        (case fst (answer_body np sv chunks embs question t k w) of
           Inr res \<Rightarrow> (Inr res, snd (answer_body np sv chunks embs question t k w))
         | Inl e \<Rightarrow> (Inr (PROCESSING_ERROR, []), snd (answer_body np sv chunks embs question t k w)))"
    unfolding t_def k_def using assms by (simp add: answer_question_def Let_def)
  show ?thesis
  proof (cases "fst f")
    case (Inl e)
    then have "answer_body np sv chunks embs question t k w = (Inl e, snd f)"
      by (simp add: answer_body_def Let_def f_def)
    with Inl show ?thesis
      unfolding aq Let_def t_def [symmetric] k_def [symmetric] f_def [symmetric] by simp
  next
    case (Inr similar)
    show ?thesis
    proof (cases "similar = []")
      case True
      with Inr have "answer_body np sv chunks embs question t k w = (Inr (NOT_FOUND, []), snd f)"
        by (simp add: answer_body_def Let_def f_def)
      with Inr True show ?thesis
        unfolding aq Let_def t_def [symmetric] k_def [symmetric] f_def [symmetric] by simp
    next
      case False
      from Inr have "list_all (\<lambda>p. py_or (Some t) SIMILARITY_THRESHOLD \<le> snd p) similar"
        unfolding f_def by (rule find_similar_chunks_above_threshold)
      with False have best: "\<not> snd (hd similar) < t"
        unfolding tt by (cases similar) auto
      have ctx: "prepare_context similar None \<noteq> []"
        using False by (rule prepare_context_nonempty)
      have cit: "map (\<lambda>p. get_citation (fst p)) similar \<noteq> []" using False by simp
      let ?g = "generate_answer sv question (prepare_context similar None) (snd f)"
      let ?c = "map (\<lambda>p. get_citation (fst p)) similar"
      have "answer_body np sv chunks embs question t k w =
              (Inr (if fst ?g \<noteq> [] \<and> fst ?g \<noteq> NOT_FOUND \<and>
                       \<not> list_ex (\<lambda>citation. contains citation (fst ?g)) ?c
                    then fst ?g @ u '' '' @ join (u '' '') ?c else fst ?g, ?c), snd ?g)"
        using Inr False best ctx cit
        unfolding answer_body_def Let_def f_def [symmetric] by simp
      with Inr False show ?thesis
        unfolding aq Let_def t_def [symmetric] k_def [symmetric] f_def [symmetric] by simp
    qed
  qed
qed

lemma get_citation_chunk_a: "get_citation chunk_a = citation_a"
  by (simp add: chunk_a_def citation_a_def get_citation_zero)

lemma example_retrieval:
  "fst (find_similar_chunks exact_numpy (get_embedding (replying outcome)) q [chunk_a] [[1]]
          (Some (py_or None TOP_K_CHUNKS)) (Some (py_or None SIMILARITY_THRESHOLD)) fresh_world)
     = Inr [(chunk_a, 1)]"
proof -
  have e: "fst (get_embedding (replying outcome) q fresh_world) = [1]"
    by (simp add: get_embedding_def replying_def fresh_world_def rate_limit_retry_def
        MAX_RETRIES_def eval_nat_numeral Let_def)
  have c: "cosine_similarity exact_numpy [1] [1] = Inr 1"
    by (simp add: cosine_similarity_def exact_numpy_def Let_def)
  show ?thesis
    unfolding find_similar_chunks_def Let_def e
    by (simp add: c py_or_def SIMILARITY_THRESHOLD_def TOP_K_CHUNKS_def py_take_def)
qed

lemma example_context: "prepare_context [(chunk_a, 1)] None = u ''a '' @ citation_a"
  by (simp add: prepare_context_def get_citation_zero py_or_def MAX_CONTEXT_LENGTH_def Let_def
      citation_a_def u_def chunk_a_def)


text \<open>
  C4 (as amended). \<open>answer_question\<close> never propagates an exception: it always returns a
  pair. With an empty index it returns the fixed \<open>No content has been indexed for Q&A.\<close>
  with no citations, and the state is unchanged, so no service was called. When retrieval
  returns no chunk it returns \<open>Not found in video.\<close> with no citations, and when retrieval
  raises it returns \<open>I encountered an error while processing your question.\<close> with no
  citations. When retrieval returns chunks and every attempt of the generation service
  raises, \<open>generate_answer\<close> returns the fixed
  \<open>I encountered an error while generating the answer.\<close>, and \<open>answer_question\<close> returns this
  text like a generated answer: followed by the citations of the retrieved chunks, and
  together with the list of these citations.
\<close>

theorem answer_question_never_raises:
  "let r = answer_question np sv chunks embs question thr top_k w;
       f = find_similar_chunks np (get_embedding sv) question chunks embs
             (Some (py_or top_k TOP_K_CHUNKS)) (Some (py_or thr SIMILARITY_THRESHOLD)) w
   in (\<exists>res. fst r = Inr res) \<and>
      (chunks = [] \<or> embs = [] \<longrightarrow> r = (Inr (NO_CONTENT, []), w)) \<and>
      (chunks \<noteq> [] \<and> embs \<noteq> [] \<and> fst f = Inr [] \<longrightarrow> r = (Inr (NOT_FOUND, []), snd f)) \<and>
      (\<forall>e. chunks \<noteq> [] \<and> embs \<noteq> [] \<and> fst f = Inl e \<longrightarrow>
         r = (Inr (PROCESSING_ERROR, []), snd f)) \<and>
      (\<forall>similar. chunks \<noteq> [] \<and> embs \<noteq> [] \<and> fst f = Inr similar \<and> similar \<noteq> [] \<and>
         \<not> OFFLINE_MODE sv \<and>
         (\<forall>i<MAX_RETRIES. \<exists>e.
            text_generation sv (generation_calls (snd f) + i)
              (build_prompt question (prepare_context similar None)) = Inl e) \<longrightarrow>
         fst (generate_answer sv question (prepare_context similar None) (snd f)) = GENERATION_ERROR \<and>
         fst r = Inr (GENERATION_ERROR @ u '' '' @
                        join (u '' '') (map (\<lambda>p. get_citation (fst p)) similar),
                      map (\<lambda>p. get_citation (fst p)) similar))"
proof -
  define f where "f = find_similar_chunks np (get_embedding sv) question chunks embs
             (Some (py_or top_k TOP_K_CHUNKS)) (Some (py_or thr SIMILARITY_THRESHOLD)) w"
  define r where "r = answer_question np sv chunks embs question thr top_k w"
  have p1: "\<exists>res. fst r = Inr res"
    unfolding r_def answer_question_def Let_def by (simp split: sum.splits)
  have p2: "chunks = [] \<or> embs = [] \<longrightarrow> r = (Inr (NO_CONTENT, []), w)"
    unfolding r_def answer_question_def by simp
  have cases: "r = (case fst f of
           Inl e \<Rightarrow> (Inr (PROCESSING_ERROR, []), snd f)
         | Inr similar \<Rightarrow>
             if similar = [] then (Inr (NOT_FOUND, []), snd f)
             else
               (let g = generate_answer sv question (prepare_context similar None) (snd f);
                    citations = map (\<lambda>p. get_citation (fst p)) similar
                in (Inr (if fst g \<noteq> [] \<and> fst g \<noteq> NOT_FOUND \<and>
                            \<not> list_ex (\<lambda>citation. contains citation (fst g)) citations
                         then fst g @ u '' '' @ join (u '' '') citations
                         else fst g,
                         citations),
                    snd g)))"
    if "chunks \<noteq> []" "embs \<noteq> []"
    unfolding r_def f_def using answer_question_cases [OF that] unfolding Let_def by simp
  have p3: "chunks \<noteq> [] \<and> embs \<noteq> [] \<and> fst f = Inr [] \<longrightarrow> r = (Inr (NOT_FOUND, []), snd f)"
    using cases by simp
  have p4: "chunks \<noteq> [] \<and> embs \<noteq> [] \<and> fst f = Inl e \<longrightarrow> r = (Inr (PROCESSING_ERROR, []), snd f)" for e
    using cases by simp
  have p5: "fst (generate_answer sv question (prepare_context similar None) (snd f)) = GENERATION_ERROR \<and>
         fst r = Inr (GENERATION_ERROR @ u '' '' @
                        join (u '' '') (map (\<lambda>p. get_citation (fst p)) similar),
                      map (\<lambda>p. get_citation (fst p)) similar)"
    if h: "chunks \<noteq> []" "embs \<noteq> []" "fst f = Inr similar" "similar \<noteq> []" "\<not> OFFLINE_MODE sv"
      "\<forall>i<MAX_RETRIES. \<exists>e.
            text_generation sv (generation_calls (snd f) + i)
              (build_prompt question (prepare_context similar None)) = Inl e"
    for similar
  proof -
    have g: "generate_answer sv question (prepare_context similar None) (snd f) =
               (GENERATION_ERROR, (snd f)\<lparr>generation_calls := generation_calls (snd f) + MAX_RETRIES\<rparr>)"
      using h(5) h(6) by (intro generate_answer_all_fail) simp_all
    have ne: "GENERATION_ERROR \<noteq> []" "GENERATION_ERROR \<noteq> NOT_FOUND"
      by (simp_all add: GENERATION_ERROR_def NOT_FOUND_def u_def)
    have nc: "\<not> list_ex (\<lambda>citation. contains citation GENERATION_ERROR)
                 (map (\<lambda>p. get_citation (fst p)) similar)"
      by (simp add: list_ex_iff citation_not_in_error)
    show ?thesis
      using cases [OF h(1) h(2)] h(3) h(4) ne nc by (simp add: g Let_def)
  qed
  show ?thesis
    unfolding Let_def f_def [symmetric] r_def [symmetric]
    using p1 p2 p3 p4 p5 by blast
qed


lemma strip_no_space:
  "s \<noteq> [] \<Longrightarrow> \<not> is_space (hd s) \<Longrightarrow> \<not> is_space (last s) \<Longrightarrow> strip s = s"
proof -
  assume a: "s \<noteq> []" "\<not> is_space (hd s)" "\<not> is_space (last s)"
  then have "lstrip s = s" by (cases s) (simp_all add: lstrip_def)
  moreover have "lstrip (rev s) = rev s"
    using a by (cases "rev s") (auto simp: lstrip_def hd_rev)
  ultimately show ?thesis by (simp add: strip_def)
qed

lemma extract_answer_str: "extract_answer sv (RStr s) = strip s"
  by (simp add: extract_answer_def)

lemma generate_answer_replying:
  "fst (generate_answer (replying (Inr r)) q ctx w) =
     clean_answer (replying (Inr r)) (extract_answer (replying (Inr r)) r)"
proof -
  have "fst (rate_limit_retry (\<lambda>n. text_generation (replying (Inr r)) n p) k) = Inr r" for p k
    by (simp add: rate_limit_retry_def MAX_RETRIES_def eval_nat_numeral replying_def)
  moreover have "\<not> OFFLINE_MODE (replying (Inr r))" by (simp add: replying_def)
  ultimately show ?thesis by (simp add: generate_answer_def Let_def)
qed

lemma strip_yes: "strip (u ''Yes.'') = u ''Yes.''"
  by (rule strip_no_space) (simp_all add: u_def is_space_def)

lemma strip_none: "strip (u ''none'') = u ''none''"
  by (rule strip_no_space) (simp_all add: u_def is_space_def)

lemma str_replying:
  "str_lower (replying out) s = s" "str_upper (replying out) s = s" "\<not> str_islower (replying out) s"
  by (simp_all add: replying_def)

lemma clean_answer_yes: "clean_answer (replying out) (u ''Yes.'') = u ''Yes.''"
proof -
  have a: "u ''Yes.'' \<noteq> []" by (simp add: u_def)
  have b: "\<not> prefix (u ''answer:'') (u ''Yes.'')" by (simp add: u_def)
  have c: "u ''Yes.'' \<notin> set [[], u ''none'', u ''n/a'', u ''not applicable'']" by (simp add: u_def)
  show ?thesis
    unfolding clean_answer_def Let_def str_replying strip_yes using a b c by simp
qed

lemma clean_answer_none: "clean_answer (replying out) (u ''none'') = NOT_FOUND"
proof -
  have a: "u ''none'' \<noteq> []" by (simp add: u_def)
  have b: "\<not> prefix (u ''answer:'') (u ''none'')" by (simp add: u_def)
  show ?thesis
    unfolding clean_answer_def Let_def str_replying strip_none using a b by simp
qed

lemma example_generate_yes:
  "fst (generate_answer (replying (Inr (RStr (u ''Yes.'')))) q ctx w) = u ''Yes.''"
  by (simp only: generate_answer_replying extract_answer_str strip_yes clean_answer_yes)

lemma example_generate_none:
  "fst (generate_answer (replying (Inr (RStr (u ''none'')))) q ctx w) = NOT_FOUND"
  by (simp only: generate_answer_replying extract_answer_str strip_none clean_answer_none)

lemma example_generate_fail:
  "fst (generate_answer (replying (Inl ServiceError)) q ctx w) = GENERATION_ERROR"
  by (simp add: generate_answer_def rate_limit_retry_def MAX_RETRIES_def eval_nat_numeral
      replying_def Let_def)

lemma citation_a_not_in:
  "\<not> contains citation_a (u ''Yes.'')" "\<not> contains citation_a NOT_FOUND"
  "\<not> contains citation_a GENERATION_ERROR"
  by (simp_all add: citation_a_def u_def NOT_FOUND_def GENERATION_ERROR_def)

theorem answer_question_never_raises_witness:
  "[chunk_a] \<noteq> [] \<and> [[1::real]] \<noteq> [] \<and> \<not> OFFLINE_MODE (replying (Inl ServiceError)) \<and>
   fst (find_similar_chunks exact_numpy (get_embedding (replying (Inl ServiceError))) (u ''why'')
          [chunk_a] [[1]] (Some (py_or None TOP_K_CHUNKS)) (Some (py_or None SIMILARITY_THRESHOLD))
          fresh_world) = Inr [(chunk_a, 1)] \<and>
   fst (answer_question exact_numpy (replying (Inl ServiceError)) [chunk_a] [[1]] (u ''why'')
          None None fresh_world)
     = Inr (GENERATION_ERROR @ u '' '' @ citation_a, [citation_a])"
  using answer_question_never_raises [of exact_numpy "replying (Inl ServiceError)" "[chunk_a]"
      "[[1]]" "u ''why''" None None fresh_world]
  by (simp add: Let_def example_retrieval get_citation_chunk_a)
     (simp add: replying_def)

text \<open>
  C4 as stated fails: when the index holds one chunk that is retrieved and the generation
  service raises on every attempt, the answer is the error text followed by the citation,
  and the list of citations is not empty.
\<close>

theorem answer_question_generation_error_counterexample:
  "text_generation (replying (Inl ServiceError)) = (\<lambda>n prompt. Inl ServiceError) \<and>
   fst (answer_question exact_numpy (replying (Inl ServiceError)) [chunk_a] [[1]] (u ''q'')
          None None fresh_world)
     = Inr (GENERATION_ERROR @ u '' '' @ citation_a, [citation_a]) \<and>
   [citation_a] \<noteq> []"
  using answer_question_cases [of "[chunk_a]" "[[1]]" exact_numpy "replying (Inl ServiceError)"
      "u ''q''" None None fresh_world]
  by (simp add: Let_def example_retrieval get_citation_chunk_a example_generate_fail
      citation_a_not_in)
     (simp add: replying_def GENERATION_ERROR_def NOT_FOUND_def u_def)


text \<open>
  C8 (as amended). When retrieval returns chunks, \<open>answer_question\<close> returns the text of
  \<open>generate_answer\<close> followed by a space and the citations of all retrieved chunks, joined
  by spaces, unless that text is empty, is \<open>Not found in video.\<close>, or already contains one
  of the citations verbatim; then it returns the text as it is. The list of citations is
  returned in every case.
\<close>

theorem answer_question_appends_citations:
  "let f = find_similar_chunks np (get_embedding sv) question chunks embs
             (Some (py_or top_k TOP_K_CHUNKS)) (Some (py_or thr SIMILARITY_THRESHOLD)) w
   in \<forall>similar. chunks \<noteq> [] \<and> embs \<noteq> [] \<and> fst f = Inr similar \<and> similar \<noteq> [] \<longrightarrow>
        (let g = generate_answer sv question (prepare_context similar None) (snd f);
             answer = fst g;
             citations = map (\<lambda>p. get_citation (fst p)) similar
         in answer_question np sv chunks embs question thr top_k w =
              (Inr (if answer = [] \<or> answer = NOT_FOUND \<or>
                       list_ex (\<lambda>citation. contains citation answer) citations
                    then answer
                    else answer @ u '' '' @ join (u '' '') citations,
                    citations),
               snd g))"
proof -
  have "answer_question np sv chunks embs question thr top_k w =
          (Inr (if fst g = [] \<or> fst g = NOT_FOUND \<or>
                   list_ex (\<lambda>citation. contains citation (fst g)) (map (\<lambda>p. get_citation (fst p)) similar)
                then fst g
                else fst g @ u '' '' @ join (u '' '') (map (\<lambda>p. get_citation (fst p)) similar),
                map (\<lambda>p. get_citation (fst p)) similar),
           snd g)"
    if "chunks \<noteq> []" "embs \<noteq> []"
      and "fst (find_similar_chunks np (get_embedding sv) question chunks embs
             (Some (py_or top_k TOP_K_CHUNKS)) (Some (py_or thr SIMILARITY_THRESHOLD)) w) = Inr similar"
      and "similar \<noteq> []"
      and "g = generate_answer sv question (prepare_context similar None)
                 (snd (find_similar_chunks np (get_embedding sv) question chunks embs
                   (Some (py_or top_k TOP_K_CHUNKS)) (Some (py_or thr SIMILARITY_THRESHOLD)) w))"
    for similar g
    using answer_question_cases [OF that(1) that(2), of np sv question thr top_k w] that(3) that(4)
    unfolding Let_def that(5) by simp
  then show ?thesis unfolding Let_def by blast
qed

theorem answer_question_appends_citations_witness:
  "[chunk_a] \<noteq> [] \<and> [[1::real]] \<noteq> [] \<and>
   fst (find_similar_chunks exact_numpy (get_embedding (replying (Inr (RStr (u ''Yes.''))))) (u ''why'')
          [chunk_a] [[1]] (Some (py_or None TOP_K_CHUNKS)) (Some (py_or None SIMILARITY_THRESHOLD))
          fresh_world) = Inr [(chunk_a, 1)] \<and>
   fst (answer_question exact_numpy (replying (Inr (RStr (u ''Yes.'')))) [chunk_a] [[1]] (u ''why'')
          None None fresh_world)
     = Inr (u ''Yes.'' @ u '' '' @ citation_a, [citation_a])"
  using answer_question_appends_citations [of exact_numpy "replying (Inr (RStr (u ''Yes.'')))"
      "u ''why''" "[chunk_a]" "[[1]]" None None fresh_world]
  by (simp add: Let_def example_retrieval get_citation_chunk_a example_generate_yes
      citation_a_not_in)
     (simp add: NOT_FOUND_def u_def)

text \<open>
  C8 as stated fails: when the service answers \<open>none\<close>, the generated answer is
  \<open>Not found in video.\<close>; it contains no citation, and no citation is appended.
\<close>

theorem answer_question_not_found_counterexample:
  "fst (generate_answer (replying (Inr (RStr (u ''none'')))) (u ''q'') (u ''a '' @ citation_a)
          fresh_world) = NOT_FOUND \<and>
   fst (answer_question exact_numpy (replying (Inr (RStr (u ''none'')))) [chunk_a] [[1]] (u ''q'')
          None None fresh_world)
     = Inr (NOT_FOUND, [citation_a]) \<and>
   \<not> contains citation_a NOT_FOUND"
  using answer_question_cases [of "[chunk_a]" "[[1]]" exact_numpy "replying (Inr (RStr (u ''none'')))"
      "u ''q''" None None fresh_world]
  by (simp add: Let_def example_retrieval get_citation_chunk_a example_generate_none
      citation_a_not_in)


end
